theory Spec2Isabelle
  imports Main "HOL-Library.Word"
begin

section \<open>The field pill of the field list (src/components/FieldList/FieldPill.tsx)\<close>

text \<open>
  The component is a function of its props (\<open>field\<close>, \<open>index\<close>), of the shared state
  read through \<open>useApp\<close> and of three pieces of instance state (\<open>isHovered\<close>,
  \<open>isDragging\<close> and the ref \<open>lastPointerTypeRef\<close>). Each render builds the event
  handlers as closures over these values; an event runs one handler to completion, and the
  next event meets the handlers of a render that has seen every earlier update. The model
  therefore passes the state explicitly: a handler takes the values its closure captured
  and returns the instance state it leaves behind, together with the requests it sent to
  the shared state container. The prop \<open>index\<close> only delays the entry animation and is
  left out, as is the styling apart from the background and border, which show whether
  the field is selected.
\<close>

subsection \<open>Data\<close>

text \<open>
  \<open>FieldType\<close> is imported from \<open>src/types\<close>; its four members are the keys of the two
  \<open>Record<FieldType, string>\<close> tables below. At run time a member is the string of
  the same spelling, \<open>FieldType_str\<close>.
\<close>

datatype FieldType = quantitative | nominal | ordinal | temporal

fun FieldType_str :: "FieldType \<Rightarrow> string" where
  "FieldType_str quantitative = ''quantitative''"
| "FieldType_str nominal = ''nominal''"
| "FieldType_str ordinal = ''ordinal''"
| "FieldType_str temporal = ''temporal''"

text \<open>
  A JavaScript string is a sequence of 16-bit code units. The name of a field is data and
  is written by \<open>JSON.stringify\<close>, which treats surrogate code units specially, so
  names and the drag payload are sequences of code units; \<open>ascii\<close> gives the code
  units of a literal. The strings that the component only compares with its own
  literals or uses as keys of its tables are kept as \<open>string\<close>.
\<close>

type_synonym jsstring = "16 word list"

definition ascii :: "string \<Rightarrow> jsstring" where
  "ascii s = map (\<lambda>c. of_nat (of_char c)) s"

text \<open>
  Modelled from the spec: the interface \<open>DetectedField\<close> of \<open>src/types\<close>, which is not
  among the sources. The component reads \<open>field.name\<close> and \<open>field.type\<close>; the spec
  gives the descriptor exactly these two members, \<open>name\<close> first.
\<close>

record DetectedField =
  name :: jsstring
  type :: FieldType

text \<open>
  The two lookup tables are object literals: association lists from property name to
  value, in the order of the source. A property read \<open>obj[key]\<close> is \<open>map_of\<close>, and
  \<open>None\<close> stands for \<open>undefined\<close>, the value JavaScript returns for a missing key.
\<close>

definition TYPE_COLORS :: "(string \<times> string) list" where
  "TYPE_COLORS =
    [(''quantitative'', ''var(--color-quantitative)''),
     (''nominal'', ''var(--color-nominal)''),
     (''ordinal'', ''var(--color-ordinal)''),
     (''temporal'', ''var(--color-temporal)'')]"

definition TYPE_LABELS :: "(string \<times> string) list" where
  "TYPE_LABELS =
    [(''quantitative'', ''Q''),
     (''nominal'', ''N''),
     (''ordinal'', ''O''),
     (''temporal'', ''T'')]"

definition color :: "DetectedField \<Rightarrow> string option" where
  "color field = map_of TYPE_COLORS (FieldType_str (type field))"

definition label :: "DetectedField \<Rightarrow> string option" where
  "label field = map_of TYPE_LABELS (FieldType_str (type field))"

text \<open>The type of the ref: \<open>'mouse' | 'pen' | 'touch' | 'unknown'\<close>.\<close>

datatype PointerKind = mouse | pen | touch | unknown

fun PointerKind_str :: "PointerKind \<Rightarrow> string" where
  "PointerKind_str mouse = ''mouse''"
| "PointerKind_str pen = ''pen''"
| "PointerKind_str touch = ''touch''"
| "PointerKind_str unknown = ''unknown''"

text \<open>
  The instance state: two \<open>useState\<close> cells and the ref. \<open>initialPillState\<close> holds the
  values the hooks are created with.
\<close>

record PillState =
  isHovered :: bool
  isDragging :: bool
  lastPointerTypeRef :: PointerKind

definition initialPillState :: PillState where
  "initialPillState = \<lparr>isHovered = False, isDragging = False, lastPointerTypeRef = unknown\<rparr>"

text \<open>
  The operations obtained from \<open>useApp\<close> are calls into the shared state container. A
  handler's calls are recorded, in order, as a list of requests.
\<close>

datatype request =
    selectField DetectedField
  | clearSelectedField
  | toggleFieldType jsstring

subsection \<open>Values computed by a render\<close>

text \<open>
  \<open>state.selectedField?.name === field.name\<close>: with no selected field the optional
  access yields \<open>undefined\<close>, which is not strictly equal to a string.
\<close>

definition isSelected :: "DetectedField option \<Rightarrow> DetectedField \<Rightarrow> bool" where
  "isSelected selected field =
    (case selected of None \<Rightarrow> False | Some s \<Rightarrow> name s = name field)"

definition canToggle :: "DetectedField \<Rightarrow> bool" where
  "canToggle field = (type field = ordinal \<or> type field = nominal)"

definition backgroundColor :: "DetectedField option \<Rightarrow> DetectedField \<Rightarrow> PillState \<Rightarrow> string" where
  "backgroundColor selected field st =
    (if isSelected selected field then ''var(--color-accent-glow)''
     else if isHovered st then ''var(--color-bg-tertiary)''
     else ''var(--color-bg-elevated)'')"

definition border :: "DetectedField option \<Rightarrow> DetectedField \<Rightarrow> PillState \<Rightarrow> string" where
  "border selected field st =
    ''1px solid '' @
    (if isSelected selected field then ''var(--color-accent)''
     else if isHovered st then ''var(--color-border-hover)''
     else ''var(--color-border)'')"

text \<open>
  The nested button, present in the rendered tree only when \<open>canToggle && isHovered\<close>
  holds. Of its attributes the model keeps the tooltip and the letter it shows.
\<close>

record ToggleButton =
  title :: string
  caption :: string

definition renderToggleButton :: "DetectedField \<Rightarrow> PillState \<Rightarrow> ToggleButton option" where
  "renderToggleButton field st =
    (if canToggle field \<and> isHovered st
     then Some \<lparr>title = (if type field = ordinal
                          then ''Switch to Nominal (distinct colors)''
                          else ''Switch to Ordinal (gradient colors)''),
                caption = (if type field = ordinal then ''N'' else ''O'')\<rparr>
     else None)"

subsection \<open>Handlers of the pill\<close>

text \<open>\<open>handlePointerDown\<close> stores the normalised \<open>e.pointerType\<close> in the ref.\<close>

definition handlePointerDown :: "string \<Rightarrow> PillState \<Rightarrow> PillState" where
  "handlePointerDown pointerType st =
    st\<lparr>lastPointerTypeRef :=
         (if pointerType = ''mouse'' then mouse
          else if pointerType = ''pen'' then pen
          else if pointerType = ''touch'' then touch
          else unknown)\<rparr>"

text \<open>
  \<open>handleClick\<close> reads the ref and the \<open>isSelected\<close> of the render; it assigns nothing,
  so the instance state comes back as it was.
\<close>

definition handleClick ::
  "DetectedField option \<Rightarrow> DetectedField \<Rightarrow> PillState \<Rightarrow> PillState \<times> request list" where
  "handleClick selected field st =
    (if lastPointerTypeRef st = touch
     then (if isSelected selected field
           then (st, [clearSelectedField])
           else (st, [selectField field]))
     else (st, []))"

subsection \<open>The drag payload\<close>

text \<open>
  \<open>JSON.stringify\<close> on a string (ECMAScript \<open>QuoteJSONString\<close>) goes through the
  code points of the string. A surrogate pair is copied; a surrogate code unit that is
  not part of a pair is written as \<open>\uXXXX\<close> with lower-case hexadecimal digits, as is
  a control character below \<open>0x20\<close> that has no short escape; the quote, the backslash
  and the five control characters of the table get their two-character escape; every
  other code unit is copied.
\<close>

definition isLeadingSurrogate :: "16 word \<Rightarrow> bool" where
  "isLeadingSurrogate c = (0xD800 \<le> c \<and> c \<le> 0xDBFF)"

definition isTrailingSurrogate :: "16 word \<Rightarrow> bool" where
  "isTrailingSurrogate c = (0xDC00 \<le> c \<and> c \<le> 0xDFFF)"

text \<open>The digit of a value below 16; it is applied to the four nibbles of a code unit only.\<close>

definition hexDigit :: "nat \<Rightarrow> 16 word" where
  "hexDigit n = ascii ''0123456789abcdef'' ! n"

definition UnicodeEscape :: "16 word \<Rightarrow> jsstring" where
  "UnicodeEscape c =
     ascii [CHR 0x5C, CHR ''u''] @
     [hexDigit (unat c div 4096), hexDigit (unat c div 256 mod 16),
      hexDigit (unat c div 16 mod 16), hexDigit (unat c mod 16)]"

definition QuoteJSONUnit :: "16 word \<Rightarrow> jsstring" where
  "QuoteJSONUnit c =
    (if c = 0x08 then ascii [CHR 0x5C, CHR ''b'']
     else if c = 0x09 then ascii [CHR 0x5C, CHR ''t'']
     else if c = 0x0A then ascii [CHR 0x5C, CHR ''n'']
     else if c = 0x0C then ascii [CHR 0x5C, CHR ''f'']
     else if c = 0x0D then ascii [CHR 0x5C, CHR ''r'']
     else if c = 0x22 then ascii [CHR 0x5C, CHR 0x22]
     else if c = 0x5C then ascii [CHR 0x5C, CHR 0x5C]
     else if c < 0x20 then UnicodeEscape c
     else [c])"

fun QuoteJSONUnits :: "jsstring \<Rightarrow> jsstring" where
  "QuoteJSONUnits [] = []"
| "QuoteJSONUnits [c] =
     (if isLeadingSurrogate c \<or> isTrailingSurrogate c then UnicodeEscape c
      else QuoteJSONUnit c)"
| "QuoteJSONUnits (c # d # ds) =
     (if isLeadingSurrogate c \<and> isTrailingSurrogate d then c # d # QuoteJSONUnits ds
      else if isLeadingSurrogate c \<or> isTrailingSurrogate c
        then UnicodeEscape c @ QuoteJSONUnits (d # ds)
      else QuoteJSONUnit c @ QuoteJSONUnits (d # ds))"

definition QuoteJSONString :: "jsstring \<Rightarrow> jsstring" where
  "QuoteJSONString s = ascii [CHR 0x22] @ QuoteJSONUnits s @ ascii [CHR 0x22]"

text \<open>
  The values \<open>JSON.stringify\<close> is applied to: \<open>null\<close>, booleans, strings, arrays and
  objects. An object is the list of its own enumerable properties in the order in which
  \<open>JSON.stringify\<close> visits them, which for keys that are not array indices is the order
  of their creation. Numbers are not among the members of a field descriptor and are left
  out.
\<close>

datatype jsvalue =
    JSNull
  | JSBoolean bool
  | JSString jsstring
  | JSArray "jsvalue list"
  | JSObject "(jsstring \<times> jsvalue) list"

fun join :: "jsstring list \<Rightarrow> jsstring" where
  "join [] = []"
| "join [p] = p"
| "join (p # q # ps) = p @ ascii '','' @ join (q # ps)"

text \<open>
  \<open>JSON.stringify(value)\<close> without replacer and indentation: every member of an object
  is written as its quoted key, a colon and its value, the members and the elements of an
  array are separated by commas, and there is no white space.
\<close>

fun JSON_stringify :: "jsvalue \<Rightarrow> jsstring" where
  "JSON_stringify JSNull = ascii ''null''"
| "JSON_stringify (JSBoolean b) = (if b then ascii ''true'' else ascii ''false'')"
| "JSON_stringify (JSString s) = QuoteJSONString s"
| "JSON_stringify (JSArray vs) = ascii ''['' @ join (map JSON_stringify vs) @ ascii '']''"
| "JSON_stringify (JSObject ms) =
     ascii ''{'' @
     join (map (\<lambda>m. QuoteJSONString (fst m) @ ascii '':'' @ JSON_stringify (snd m)) ms) @
     ascii ''}''"

text \<open>
  Modelled from the spec: the object that a \<open>DetectedField\<close> is at run time. The
  interface is declared in \<open>src/types\<close>, which is not among the sources; the spec gives
  a field descriptor the two members \<open>name\<close> and \<open>type\<close>, in this order, the type
  being one of the four strings.
\<close>

definition fieldObject :: "DetectedField \<Rightarrow> jsvalue" where
  "fieldObject field =
     JSObject [(ascii ''name'', JSString (name field)),
               (ascii ''type'', JSString (ascii (FieldType_str (type field))))]"

text \<open>
  \<open>e.dataTransfer\<close>: the drag data store, one string per format, and the
  \<open>effectAllowed\<close> attribute. \<open>setData\<close> replaces the entry of its format and leaves
  the others; the format \<open>application/json\<close> is already in the lower case the platform
  converts formats to.
\<close>

record DataTransfer =
  items :: "string \<rightharpoonup> jsstring"
  effectAllowed :: string

definition setData :: "string \<Rightarrow> jsstring \<Rightarrow> DataTransfer \<Rightarrow> DataTransfer" where
  "setData format d dt = dt\<lparr>items := (items dt)(format \<mapsto> d)\<rparr>"

definition handleDragStart ::
  "DetectedField \<Rightarrow> DataTransfer \<Rightarrow> PillState \<Rightarrow> DataTransfer \<times> PillState" where
  "handleDragStart field dt st =
    ((setData ''application/json'' (JSON_stringify (fieldObject field)) dt)
       \<lparr>effectAllowed := ''copy''\<rparr>,
     st\<lparr>isDragging := True\<rparr>)"

definition handleDragEnd :: "PillState \<Rightarrow> PillState" where
  "handleDragEnd st = st\<lparr>isDragging := False\<rparr>"

definition onMouseEnter :: "PillState \<Rightarrow> PillState" where
  "onMouseEnter st = st\<lparr>isHovered := True\<rparr>"

definition onMouseLeave :: "PillState \<Rightarrow> PillState" where
  "onMouseLeave st = st\<lparr>isHovered := False\<rparr>"

subsection \<open>Handlers of the toggle button and event delivery\<close>

text \<open>
  A handler of the nested button returns whether it called \<open>e.stopPropagation()\<close>
  and the requests it sent. \<open>onClick\<close> stops the event and calls
  \<open>toggleFieldType(field.name)\<close>; \<open>onMouseDown\<close> only stops the event.
\<close>

definition toggle_onClick :: "DetectedField \<Rightarrow> bool \<times> request list" where
  "toggle_onClick field = (True, [toggleFieldType (name field)])"

definition toggle_onMouseDown :: "bool \<times> request list" where
  "toggle_onMouseDown = (True, [])"

text \<open>
  React delivers an event to the handler of its target and then, unless that handler
  stopped it, to the handler of the enclosing element. \<open>bubble\<close> is this second
  step, from the button to the pill.
\<close>

definition bubble ::
  "bool \<times> request list \<Rightarrow> (PillState \<Rightarrow> PillState \<times> request list) \<Rightarrow>
   PillState \<Rightarrow> PillState \<times> request list" where
  "bubble inner outer st =
    (if fst inner then (st, snd inner)
     else (fst (outer st), snd inner @ snd (outer st)))"

datatype target = pillDiv | toggleButton

datatype event =
    pointerdown target string
  | mousedown target
  | click target
  | dragstart DataTransfer
  | dragend
  | mouseenter
  | mouseleave

text \<open>
  What one event does to the component: the instance state afterwards, the requests
  sent, and for \<open>dragstart\<close> the data transfer object the handler filled. An event
  aimed at the button has no target when the button is not in the rendered tree
  (\<open>None\<close>). The button has no \<open>onPointerDown\<close>, so a pointer-down on it reaches the
  pill's handler; the pill has no \<open>onMouseDown\<close>.
\<close>

record outcome =
  pillState :: PillState
  requests :: "request list"
  transfer :: "DataTransfer option"

definition deliver ::
  "DetectedField option \<Rightarrow> DetectedField \<Rightarrow> event \<Rightarrow> PillState \<Rightarrow> outcome option" where
  "deliver selected field ev st =
    (case ev of
       pointerdown tg pointerType \<Rightarrow>
         (if tg = toggleButton \<and> renderToggleButton field st = None then None
          else Some \<lparr>pillState = handlePointerDown pointerType st, requests = [],
                     transfer = None\<rparr>)
     | mousedown tg \<Rightarrow>
         (if tg = pillDiv
          then Some \<lparr>pillState = st, requests = [], transfer = None\<rparr>
          else if renderToggleButton field st = None then None
          else (let r = bubble toggle_onMouseDown (\<lambda>s. (s, [])) st
                in Some \<lparr>pillState = fst r, requests = snd r, transfer = None\<rparr>))
     | click tg \<Rightarrow>
         (if tg = pillDiv
          then (let r = handleClick selected field st
                in Some \<lparr>pillState = fst r, requests = snd r, transfer = None\<rparr>)
          else if renderToggleButton field st = None then None
          else (let r = bubble (toggle_onClick field) (handleClick selected field) st
                in Some \<lparr>pillState = fst r, requests = snd r, transfer = None\<rparr>))
     | dragstart dt \<Rightarrow>
         (let r = handleDragStart field dt st
          in Some \<lparr>pillState = snd r, requests = [], transfer = Some (fst r)\<rparr>)
     | dragend \<Rightarrow> Some \<lparr>pillState = handleDragEnd st, requests = [], transfer = None\<rparr>
     | mouseenter \<Rightarrow> Some \<lparr>pillState = onMouseEnter st, requests = [], transfer = None\<rparr>
     | mouseleave \<Rightarrow> Some \<lparr>pillState = onMouseLeave st, requests = [], transfer = None\<rparr>)"

subsection \<open>The shared state container\<close>

text \<open>
  Modelled from the spec: the state container behind \<open>useApp\<close>
  (\<open>src/context/AppContext\<close>), which is not among the sources. The spec gives it a
  selection of at most one field (\<open>selectedField: field | none\<close>) and a registry of the
  fields; \<open>selectField(field)\<close> makes the field the selection, replacing any other,
  \<open>clearSelectedField()\<close> leaves none selected, and \<open>toggleFieldType(name)\<close> flips the
  type of the registry's field of that name between \<open>nominal\<close> and \<open>ordinal\<close> and
  does not change the selection.
\<close>

record AppState =
  selectedField :: "DetectedField option"
  detectedFields :: "DetectedField list"

text \<open>
  Modelled from the spec: the transition of \<open>toggleFieldType\<close>, between \<open>nominal\<close> and
  \<open>ordinal\<close> only; the other two types have no transition.
\<close>

fun flipType :: "FieldType \<Rightarrow> FieldType" where
  "flipType nominal = ordinal"
| "flipType ordinal = nominal"
| "flipType t = t"

text \<open>
  Modelled from the spec: what the container (\<open>src/context/AppContext\<close>, not among the
  sources) does with one request.
\<close>

fun perform :: "request \<Rightarrow> AppState \<Rightarrow> AppState" where
  "perform (selectField f) app = app\<lparr>selectedField := Some f\<rparr>"
| "perform clearSelectedField app = app\<lparr>selectedField := None\<rparr>"
| "perform (toggleFieldType n) app =
     app\<lparr>detectedFields := map (\<lambda>g. if name g = n then g\<lparr>type := flipType (type g)\<rparr> else g)
                                 (detectedFields app)\<rparr>"

text \<open>
  One event on a pill that shows \<open>field\<close>, together with the container modelled from
  the spec: the render reads the current selection, the event is delivered, and the
  requests are performed in the order they were sent.
\<close>

definition react ::
  "DetectedField \<Rightarrow> event \<Rightarrow> AppState \<times> PillState \<Rightarrow> (AppState \<times> PillState) option" where
  "react field ev w =
    (case deliver (selectedField (fst w)) field ev (snd w) of
       None \<Rightarrow> None
     | Some out \<Rightarrow> Some (fold perform (requests out) (fst w), pillState out))"

text \<open>
  A touch tap on the pill: its pointer-down, then the click the browser sends. The
  selection of a pair of container and instance state, and two taps in a row.
\<close>

definition touchTap :: "DetectedField \<Rightarrow> AppState \<times> PillState \<Rightarrow> (AppState \<times> PillState) option" where
  "touchTap field w =
    (case react field (pointerdown pillDiv ''touch'') w of
       None \<Rightarrow> None
     | Some w' \<Rightarrow> react field (click pillDiv) w')"

definition selection :: "AppState \<times> PillState \<Rightarrow> DetectedField option" where
  "selection w = selectedField (fst w)"

definition tapTwice :: "DetectedField \<Rightarrow> AppState \<times> PillState \<Rightarrow> (AppState \<times> PillState) option" where
  "tapTwice field w = Option.bind (touchTap field w) (touchTap field)"

subsection \<open>Reading the payload\<close>

text \<open>
  What a drop target obtains from the payload with \<open>JSON.parse\<close>: the JSON grammar
  (ECMA-404) for texts without white space and without numbers, which are the texts
  written above. \<open>read_string\<close> reads a string after its opening quote, up to the closing
  quote, and returns the code units it denotes and the rest of the text: an escape is
  one of the eight two-character escapes or \<open>\u\<close> with four hexadecimal digits of
  either case, and a control character below \<open>0x20\<close> is not allowed unescaped.
\<close>

definition hexValue :: "16 word \<Rightarrow> nat option" where
  "hexValue c =
    (if 0x30 \<le> c \<and> c \<le> 0x39 then Some (unat c - 0x30)
     else if 0x61 \<le> c \<and> c \<le> 0x66 then Some (unat c - 0x57)
     else if 0x41 \<le> c \<and> c \<le> 0x46 then Some (unat c - 0x37)
     else None)"

definition hex4 :: "16 word \<Rightarrow> 16 word \<Rightarrow> 16 word \<Rightarrow> 16 word \<Rightarrow> 16 word option" where
  "hex4 a b c d =
    (case (hexValue a, hexValue b, hexValue c, hexValue d) of
       (Some x, Some y, Some z, Some w) \<Rightarrow> Some (of_nat (x * 4096 + y * 256 + z * 16 + w))
     | _ \<Rightarrow> None)"

definition unescape :: "16 word \<Rightarrow> 16 word option" where
  "unescape e =
    (if e = 0x22 then Some 0x22
     else if e = 0x5C then Some 0x5C
     else if e = 0x2F then Some 0x2F
     else if e = 0x62 then Some 0x08
     else if e = 0x66 then Some 0x0C
     else if e = 0x6E then Some 0x0A
     else if e = 0x72 then Some 0x0D
     else if e = 0x74 then Some 0x09
     else None)"

definition consUnit ::
  "16 word \<Rightarrow> (jsstring \<times> jsstring) option \<Rightarrow> (jsstring \<times> jsstring) option" where
  "consUnit c r = map_option (\<lambda>p. (c # fst p, snd p)) r"

fun read_string :: "jsstring \<Rightarrow> (jsstring \<times> jsstring) option" where
  "read_string [] = None"
| "read_string (c # cs) =
    (if c = 0x22 then Some ([], cs)
     else if c = 0x5C then
       (case cs of
          [] \<Rightarrow> None
        | e # es \<Rightarrow>
            if e = 0x75 then
              (case es of
                 h1 # h2 # h3 # h4 # r \<Rightarrow>
                   (case hex4 h1 h2 h3 h4 of
                      None \<Rightarrow> None
                    | Some x \<Rightarrow> consUnit x (read_string r))
               | _ \<Rightarrow> None)
            else (case unescape e of
                    None \<Rightarrow> None
                  | Some x \<Rightarrow> consUnit x (read_string es)))
     else if c < 0x20 then None
     else consUnit c (read_string cs))"

text \<open>
  A value at the head of the text, with the rest of the text; the elements of an array
  after its bracket or a comma, up to the closing bracket; the members of an object
  likewise. The first argument bounds the number of nested calls, and \<open>JSON_parse\<close>
  gives it the length of the text, which is enough for every text written by
  \<open>JSON_stringify\<close> (\<open>JSON_parse_stringify\<close> below).
\<close>

fun parse_value :: "nat \<Rightarrow> jsstring \<Rightarrow> (jsvalue \<times> jsstring) option"
and parse_elements :: "nat \<Rightarrow> jsstring \<Rightarrow> (jsvalue list \<times> jsstring) option"
and parse_members :: "nat \<Rightarrow> jsstring \<Rightarrow> ((jsstring \<times> jsvalue) list \<times> jsstring) option" where
  "parse_value 0 t = None"
| "parse_value (Suc n) t =
    (case t of
       [] \<Rightarrow> None
     | c # cs \<Rightarrow>
         if c = 0x22 then map_option (\<lambda>p. (JSString (fst p), snd p)) (read_string cs)
         else if c = 0x5B then
           (case cs of
              [] \<Rightarrow> None
            | d # ds \<Rightarrow>
                if d = 0x5D then Some (JSArray [], ds)
                else map_option (\<lambda>p. (JSArray (fst p), snd p)) (parse_elements n cs))
         else if c = 0x7B then
           (case cs of
              [] \<Rightarrow> None
            | d # ds \<Rightarrow>
                if d = 0x7D then Some (JSObject [], ds)
                else map_option (\<lambda>p. (JSObject (fst p), snd p)) (parse_members n cs))
         else if take 4 t = ascii ''null'' then Some (JSNull, drop 4 t)
         else if take 4 t = ascii ''true'' then Some (JSBoolean True, drop 4 t)
         else if take 5 t = ascii ''false'' then Some (JSBoolean False, drop 5 t)
         else None)"
| "parse_elements 0 t = None"
| "parse_elements (Suc n) t =
    (case parse_value n t of
       None \<Rightarrow> None
     | Some (v, r) \<Rightarrow>
         (case r of
            [] \<Rightarrow> None
          | e # r' \<Rightarrow>
              if e = 0x5D then Some ([v], r')
              else if e = 0x2C
                then map_option (\<lambda>p. (v # fst p, snd p)) (parse_elements n r')
              else None))"
| "parse_members 0 t = None"
| "parse_members (Suc n) t =
    (case t of
       [] \<Rightarrow> None
     | q # cs \<Rightarrow>
         if q = 0x22 then
           (case read_string cs of
              None \<Rightarrow> None
            | Some (k, r0) \<Rightarrow>
                (case r0 of
                   [] \<Rightarrow> None
                 | colon # r1 \<Rightarrow>
                     if colon = 0x3A then
                       (case parse_value n r1 of
                          None \<Rightarrow> None
                        | Some (v, r) \<Rightarrow>
                            (case r of
                               [] \<Rightarrow> None
                             | e # r' \<Rightarrow>
                                 if e = 0x7D then Some ([(k, v)], r')
                                 else if e = 0x2C
                                   then map_option (\<lambda>p. ((k, v) # fst p, snd p))
                                          (parse_members n r')
                                 else None))
                     else None))
         else None)"

definition JSON_parse :: "jsstring \<Rightarrow> jsvalue option" where
  "JSON_parse t =
    (case parse_value (length t) t of
       None \<Rightarrow> None
     | Some (v, r) \<Rightarrow> if r = [] then Some v else None)"

text \<open>The text of one member of an object, as \<open>JSON_stringify\<close> writes it.\<close>

definition memberText :: "jsstring \<times> jsvalue \<Rightarrow> jsstring" where
  "memberText m = QuoteJSONString (fst m) @ ascii '':'' @ JSON_stringify (snd m)"

section \<open>Properties\<close>

subsection \<open>The payload can be read back\<close>

text \<open>
  Reading undoes quoting: the four digits of an escape give back the code unit, a pair of
  surrogates and every other copied code unit is read as itself, and the closing quote is
  the first unescaped quote of the text.
\<close>

lemma hexValue_hexDigit_upto: "list_all (\<lambda>n. hexValue (hexDigit n) = Some n) [0..<16]"
  by code_simp

lemma hexValue_hexDigit:
  assumes "n < 16"
  shows "hexValue (hexDigit n) = Some n"
proof -
  from assms have "n \<in> set [0..<16]"
    by (simp only: set_upt atLeastLessThan_iff) simp
  with hexValue_hexDigit_upto show ?thesis
    by (simp only: list_all_iff)
qed

lemma nibbles_sum:
  "(x::nat) div 4096 * 4096 + x div 256 mod 16 * 256 + x div 16 mod 16 * 16 + x mod 16 = x"
proof -
  define q1 where "q1 = x div 16"
  define q2 where "q2 = q1 div 16"
  define q3 where "q3 = q2 div 16"
  define r0 where "r0 = x mod 16"
  define r1 where "r1 = q1 mod 16"
  define r2 where "r2 = q2 mod 16"
  have a: "x div 256 = q2" by (simp add: q1_def q2_def div_mult2_eq)
  have b: "x div 4096 = q3" by (simp add: q1_def q2_def q3_def div_mult2_eq)
  have 1: "x = 16 * q1 + r0" by (simp add: q1_def r0_def)
  have 2: "q1 = 16 * q2 + r1" by (simp add: q2_def r1_def)
  have 3: "q2 = 16 * q3 + r2" by (simp add: q3_def r2_def)
  have "q3 * 4096 + r2 * 256 + r1 * 16 + r0 = x"
    using 1 2 3 by linarith
  then show ?thesis
    unfolding a b by (simp add: q1_def [symmetric] r0_def r1_def r2_def)
qed

lemma read_UnicodeEscape:
  "read_string (UnicodeEscape c @ t) = consUnit c (read_string t)"
proof -
  have "unat c < 65536" using unsigned_less [of c, where ?'a = nat] by simp
  then have "unat c div 4096 < 16" by simp
  then have "hex4 (hexDigit (unat c div 4096)) (hexDigit (unat c div 256 mod 16))
                  (hexDigit (unat c div 16 mod 16)) (hexDigit (unat c mod 16)) = Some c"
    by (simp add: hex4_def hexValue_hexDigit nibbles_sum)
  then show ?thesis by (simp add: UnicodeEscape_def ascii_def)
qed

lemma read_QuoteJSONUnit:
  "read_string (QuoteJSONUnit c @ t) = consUnit c (read_string t)"
  by (simp add: QuoteJSONUnit_def read_UnicodeEscape ascii_def unescape_def)

lemma surrogate_plain:
  "isLeadingSurrogate c \<or> isTrailingSurrogate c \<Longrightarrow> c \<noteq> 0x22 \<and> c \<noteq> 0x5C \<and> \<not> c < 0x20"
  unfolding isLeadingSurrogate_def isTrailingSurrogate_def
  by (auto simp: word_le_nat_alt word_less_nat_alt)

lemma read_QuoteJSONUnits:
  "read_string (QuoteJSONUnits s @ 0x22 # rest) = Some (s, rest)"
proof (induction s rule: QuoteJSONUnits.induct)
  case 1
  show ?case by simp
next
  case (2 c)
  show ?case by (simp add: read_UnicodeEscape read_QuoteJSONUnit consUnit_def)
next
  case (3 c d ds)
  show ?case
  proof (cases "isLeadingSurrogate c \<and> isTrailingSurrogate d")
    case True
    have q: "QuoteJSONUnits (c # d # ds) = c # d # QuoteJSONUnits ds"
      by (simp add: True)
    have ih: "read_string (QuoteJSONUnits ds @ 0x22 # rest) = Some (ds, rest)"
      by (rule "3.IH"(1) [OF True])
    from True surrogate_plain [of c] surrogate_plain [of d]
    have "c \<noteq> 0x22" "c \<noteq> 0x5C" "\<not> c < 0x20" "d \<noteq> 0x22" "d \<noteq> 0x5C" "\<not> d < 0x20"
      by blast+
    then show ?thesis
      unfolding q by (simp add: ih consUnit_def)
  next
    case False
    note nopair = False
    show ?thesis
    proof (cases "isLeadingSurrogate c \<or> isTrailingSurrogate c")
      case True
      have q: "QuoteJSONUnits (c # d # ds) = UnicodeEscape c @ QuoteJSONUnits (d # ds)"
        by (simp add: nopair True)
      have ih: "read_string (QuoteJSONUnits (d # ds) @ 0x22 # rest) = Some (d # ds, rest)"
        by (rule "3.IH"(2) [OF nopair True])
      show ?thesis
        unfolding q by (simp only: append_assoc read_UnicodeEscape ih consUnit_def
                                   option.map fst_conv snd_conv)
    next
      case False
      have q: "QuoteJSONUnits (c # d # ds) = QuoteJSONUnit c @ QuoteJSONUnits (d # ds)"
        by (simp add: nopair False)
      have ih: "read_string (QuoteJSONUnits (d # ds) @ 0x22 # rest) = Some (d # ds, rest)"
        by (rule "3.IH"(3) [OF nopair False])
      show ?thesis
        unfolding q by (simp only: append_assoc read_QuoteJSONUnit ih consUnit_def
                                   option.map fst_conv snd_conv)
    qed
  qed
qed

text \<open>
  Every text written by \<open>JSON_stringify\<close> is read back as the value it was written
  from, whatever follows it; the length of the text bounds the nesting.
\<close>

lemma stringify_object: "JSON_stringify (JSObject ms) = ascii ''{'' @ join (map memberText ms) @ ascii ''}''"
  by (simp add: memberText_def [abs_def])

lemma stringify_head:
  "\<exists>c cs. JSON_stringify v = c # cs \<and> c \<noteq> 0x5D \<and> c \<noteq> 0x7D"
  by (cases v) (auto simp: ascii_def QuoteJSONString_def)

lemma join_Cons_append:
  "join (p # ps) @ t = p @ (if ps = [] then t else 0x2C # join ps @ t)"
  by (cases ps) (simp_all add: ascii_def)

lemma parse_roundtrip:
  "(\<forall>v rest. size v < n \<longrightarrow> parse_value n (JSON_stringify v @ rest) = Some (v, rest))
   \<and> (\<forall>vs rest. vs \<noteq> [] \<longrightarrow> size_list size vs < n \<longrightarrow>
         parse_elements n (join (map JSON_stringify vs) @ 0x5D # rest) = Some (vs, rest))
   \<and> (\<forall>ms rest. ms \<noteq> [] \<longrightarrow> size_list (size_prod (\<lambda>x. 0) size) ms < n \<longrightarrow>
         parse_members n (join (map memberText ms) @ 0x7D # rest) = Some (ms, rest))"
proof (induction n)
  case 0
  show ?case by simp
next
  case (Suc n)
  note ihv = Suc.IH [THEN conjunct1, rule_format]
    and ihe = Suc.IH [THEN conjunct2, THEN conjunct1, rule_format]
    and ihm = Suc.IH [THEN conjunct2, THEN conjunct2, rule_format]
  have vals: "parse_value (Suc n) (JSON_stringify v @ rest) = Some (v, rest)"
    if "size v < Suc n" for v rest
  proof (cases v)
    case JSNull
    then show ?thesis by (simp add: ascii_def)
  next
    case (JSBoolean b)
    then show ?thesis by (cases b) (simp_all add: ascii_def)
  next
    case (JSString s)
    then show ?thesis by (simp add: QuoteJSONString_def ascii_def read_QuoteJSONUnits)
  next
    case (JSArray vs)
    show ?thesis
    proof (cases vs)
      case Nil
      with JSArray show ?thesis by (simp add: ascii_def)
    next
      case (Cons w ws)
      obtain c cs where h: "JSON_stringify w = c # cs" "c \<noteq> 0x5D"
        using stringify_head [of w] by blast
      from that JSArray have "size_list size vs < n" by simp
      with Cons have e: "parse_elements n (join (map JSON_stringify vs) @ 0x5D # rest) = Some (vs, rest)"
        using ihe [of vs rest] by simp
      have "join (map JSON_stringify vs) @ 0x5D # rest
            = c # cs @ (if ws = [] then 0x5D # rest else 0x2C # join (map JSON_stringify ws) @ 0x5D # rest)"
        using Cons h by (simp add: join_Cons_append)
      with e h(2) JSArray show ?thesis by (simp add: ascii_def)
    qed
  next
    case (JSObject ms)
    show ?thesis
    proof (cases ms)
      case Nil
      with JSObject show ?thesis by (simp add: ascii_def)
    next
      case (Cons m ms')
      from that JSObject have "size_list (size_prod (\<lambda>x. 0) size) ms < n" by simp
      with Cons have e: "parse_members n (join (map memberText ms) @ 0x7D # rest) = Some (ms, rest)"
        using ihm [of ms rest] by simp
      have "\<exists>cs. join (map memberText ms) @ 0x7D # rest = 0x22 # cs"
        using Cons by (simp add: join_Cons_append memberText_def QuoteJSONString_def ascii_def)
      then obtain cs where "join (map memberText ms) @ 0x7D # rest = 0x22 # cs" by blast
      with e JSObject show ?thesis by (simp add: stringify_object ascii_def del: JSON_stringify.simps)
    qed
  qed
  have elems: "parse_elements (Suc n) (join (map JSON_stringify vs) @ 0x5D # rest) = Some (vs, rest)"
    if "vs \<noteq> []" "size_list size vs < Suc n" for vs rest
  proof -
    from that(1) obtain w ws where vs: "vs = w # ws" by (cases vs) auto
    from that(2) vs have sw: "size w < n" and sws: "size_list size ws < n" by simp_all
    let ?X = "if ws = [] then 0x5D # rest else 0x2C # join (map JSON_stringify ws) @ 0x5D # rest"
    have t: "join (map JSON_stringify vs) @ 0x5D # rest = JSON_stringify w @ ?X"
      using vs by (simp add: join_Cons_append)
    have v: "parse_value n (JSON_stringify w @ ?X) = Some (w, ?X)"
      by (rule ihv [OF sw])
    show ?thesis
    proof (cases "ws = []")
      case True
      with t v vs show ?thesis by simp
    next
      case False
      with ihe [OF False sws, of rest] t v vs show ?thesis by simp
    qed
  qed
  have membs: "parse_members (Suc n) (join (map memberText ms) @ 0x7D # rest) = Some (ms, rest)"
    if "ms \<noteq> []" "size_list (size_prod (\<lambda>x. 0) size) ms < Suc n" for ms rest
  proof -
    from that(1) obtain k w ms' where ms: "ms = (k, w) # ms'" by (cases ms) auto
    from that(2) ms have sw: "size w < n" and sms: "size_list (size_prod (\<lambda>x. 0) size) ms' < n"
      by simp_all
    let ?X = "if ms' = [] then 0x7D # rest else 0x2C # join (map memberText ms') @ 0x7D # rest"
    have t: "join (map memberText ms) @ 0x7D # rest
             = 0x22 # QuoteJSONUnits k @ 0x22 # 0x3A # JSON_stringify w @ ?X"
      using ms by (simp add: join_Cons_append memberText_def QuoteJSONString_def ascii_def)
    have v: "parse_value n (JSON_stringify w @ ?X) = Some (w, ?X)"
      by (rule ihv [OF sw])
    show ?thesis
    proof (cases "ms' = []")
      case True
      with v ms show ?thesis unfolding t by (simp add: read_QuoteJSONUnits)
    next
      case False
      with ihm [OF False sms, of rest] v ms show ?thesis
        unfolding t by (simp add: read_QuoteJSONUnits)
    qed
  qed
  from vals elems membs show ?case by blast
qed

lemma length_join: "sum_list (map length ps) \<le> length (join ps)"
  by (induction ps rule: join.induct) simp_all

lemma size_lt_length: "size v < length (JSON_stringify v)"
proof (induction v)
  case JSNull
  show ?case by (simp add: ascii_def)
next
  case (JSBoolean b)
  show ?case by (simp add: ascii_def)
next
  case (JSString s)
  show ?case by (simp add: QuoteJSONString_def ascii_def)
next
  case (JSArray vs)
  have "size_list size vs \<le> sum_list (map length (map JSON_stringify vs))"
    using JSArray
  proof (induction vs)
    case Nil
    show ?case by simp
  next
    case (Cons w ws)
    from Cons.prems [of w] have "size w < length (JSON_stringify w)" by simp
    moreover have "size_list size ws \<le> sum_list (map length (map JSON_stringify ws))"
      using Cons by auto
    ultimately show ?case by simp
  qed
  with length_join [of "map JSON_stringify vs"] show ?case by (simp add: ascii_def)
next
  case (JSObject ms)
  have "size_list (size_prod (\<lambda>x. 0) size) ms \<le> sum_list (map length (map memberText ms))"
    using JSObject
  proof (induction ms)
    case Nil
    show ?case by simp
  next
    case (Cons m ms)
    obtain k w where m: "m = (k, w)" by (cases m)
    from Cons.prems [of m w] m have "size w < length (JSON_stringify w)" by simp
    moreover have "size_list (size_prod (\<lambda>x. 0) size) ms \<le> sum_list (map length (map memberText ms))"
      using Cons by auto
    moreover have "length (memberText m) = length (QuoteJSONUnits k) + 3 + length (JSON_stringify w)"
      using m by (simp add: memberText_def QuoteJSONString_def ascii_def)
    ultimately show ?case
      using m by simp
  qed
  with length_join [of "map memberText ms"] show ?case
    by (simp add: stringify_object ascii_def del: JSON_stringify.simps)
qed

lemma JSON_parse_stringify: "JSON_parse (JSON_stringify v) = Some v"
  using parse_roundtrip [of "length (JSON_stringify v)", THEN conjunct1, rule_format,
          OF size_lt_length, of "[]"]
  by (simp add: JSON_parse_def)

lemma JSON_stringify_inj: "JSON_stringify v = JSON_stringify w \<Longrightarrow> v = w"
proof -
  assume "JSON_stringify v = JSON_stringify w"
  then have "JSON_parse (JSON_stringify v) = JSON_parse (JSON_stringify w)"
    by (rule arg_cong)
  then have "Some v = Some w"
    by (simp only: JSON_parse_stringify)
  then show "v = w" by (rule option.inject [THEN iffD1])
qed

lemma FieldType_str_inj: "FieldType_str a = FieldType_str b \<Longrightarrow> a = b"
  by (cases a; cases b) simp_all

lemma fieldObject_inj: "fieldObject f = fieldObject g \<Longrightarrow> f = g"
proof -
  assume "fieldObject f = fieldObject g"
  then have n: "name f = name g"
    and "ascii (FieldType_str (type f)) = ascii (FieldType_str (type g))"
    by (simp_all add: fieldObject_def)
  then have "type f = type g"
    by (cases "type f"; cases "type g") (simp_all add: ascii_def)
  with n show "f = g" by simp
qed

lemma QuoteJSONString_ascii_FieldType:
  "QuoteJSONString (ascii (FieldType_str t)) = 0x22 # ascii (FieldType_str t) @ [0x22]"
  by (cases t)
     (simp_all add: QuoteJSONString_def QuoteJSONUnit_def isLeadingSurrogate_def
        isTrailingSurrogate_def ascii_def)

lemma fieldObject_text:
  \<open>JSON_stringify (fieldObject field) =
     ascii ''{"name":'' @ QuoteJSONString (name field) @
     ascii '',"type":"'' @ ascii (FieldType_str (type field)) @ ascii ''"}''\<close>
proof -
  have \<open>QuoteJSONString (ascii ''name'') = ascii ''"name"''\<close>
    by (simp add: QuoteJSONString_def QuoteJSONUnit_def isLeadingSurrogate_def
        isTrailingSurrogate_def ascii_def)
  moreover have \<open>QuoteJSONString (ascii ''type'') = ascii ''"type"''\<close>
    by (simp add: QuoteJSONString_def QuoteJSONUnit_def isLeadingSurrogate_def
        isTrailingSurrogate_def ascii_def)
  ultimately show ?thesis
    by (simp add: fieldObject_def QuoteJSONString_ascii_FieldType) (simp add: ascii_def)
qed

lemma FieldType_UNIV: "UNIV = {quantitative, nominal, ordinal, temporal}"
  by (auto intro: FieldType.exhaust)

text \<open>With the container of the spec, a touch tap toggles membership by name.\<close>

lemma touchTap_eq:
  "touchTap field (app, st) =
     Some (app\<lparr>selectedField :=
                 (if isSelected (selectedField app) field then None else Some field)\<rparr>,
           st\<lparr>lastPointerTypeRef := touch\<rparr>)"
  by (simp add: touchTap_def react_def deliver_def handlePointerDown_def handleClick_def)

subsection \<open>Click and pointer-down\<close>

text \<open>
  Claim C1. A click on the pill while the ref holds \<open>touch\<close> sends exactly one request:
  \<open>clearSelectedField()\<close> when the field is the selected one, \<open>selectField(field)\<close>
  otherwise, whatever else may be selected. The field is the selected one when the shared
  state holds a selected field of the same name. The instance state is left as it was.
\<close>

theorem touch_click_selects_or_clears:
  assumes "lastPointerTypeRef st = touch"
  shows "handleClick selected field st =
           (st, if isSelected selected field then [clearSelectedField] else [selectField field])
       \<and> deliver selected field (click pillDiv) st =
           Some \<lparr>pillState = st,
                 requests = (if isSelected selected field then [clearSelectedField]
                             else [selectField field]),
                 transfer = None\<rparr>
       \<and> isSelected selected field = (\<exists>s. selected = Some s \<and> name s = name field)"
  using assms
  by (auto simp: handleClick_def deliver_def isSelected_def split: option.splits)

theorem touch_click_selects_or_clears_witness:
  "handleClick (Some \<lparr>name = ascii ''revenue'', type = nominal\<rparr>)
     \<lparr>name = ascii ''revenue'', type = quantitative\<rparr>
     \<lparr>isHovered = False, isDragging = False, lastPointerTypeRef = touch\<rparr>
   = (\<lparr>isHovered = False, isDragging = False, lastPointerTypeRef = touch\<rparr>,
      [clearSelectedField])
   \<and> handleClick (Some \<lparr>name = ascii ''region'', type = nominal\<rparr>)
     \<lparr>name = ascii ''revenue'', type = quantitative\<rparr>
     \<lparr>isHovered = False, isDragging = False, lastPointerTypeRef = touch\<rparr>
   = (\<lparr>isHovered = False, isDragging = False, lastPointerTypeRef = touch\<rparr>,
      [selectField \<lparr>name = ascii ''revenue'', type = quantitative\<rparr>])"
proof -
  have h: "lastPointerTypeRef \<lparr>isHovered = False, isDragging = False, lastPointerTypeRef = touch\<rparr>
           = touch"
    by simp
  show ?thesis
    using touch_click_selects_or_clears
            [OF h, of "Some \<lparr>name = ascii ''revenue'', type = nominal\<rparr>"
                      "\<lparr>name = ascii ''revenue'', type = quantitative\<rparr>"]
          touch_click_selects_or_clears
            [OF h, of "Some \<lparr>name = ascii ''region'', type = nominal\<rparr>"
                      "\<lparr>name = ascii ''revenue'', type = quantitative\<rparr>"]
    by (simp add: isSelected_def ascii_def)
qed

text \<open>
  Claim C2. A click on the pill while the ref holds \<open>mouse\<close>, \<open>pen\<close> or \<open>unknown\<close>
  sends no request and leaves the instance state as it was, whatever is selected; so the
  shared state is the same afterwards, however the container carries out requests
  (\<open>run\<close>). The ref holds \<open>unknown\<close> before the first pointer-down.
\<close>

theorem other_click_is_noop:
  assumes "lastPointerTypeRef st \<in> {mouse, pen, unknown}"
  shows "handleClick selected field st = (st, [])
       \<and> deliver selected field (click pillDiv) st =
           Some \<lparr>pillState = st, requests = [], transfer = None\<rparr>
       \<and> fold run (snd (handleClick selected field st)) app = app
       \<and> handleClick selected field initialPillState = (initialPillState, [])"
  using assms by (auto simp: handleClick_def deliver_def initialPillState_def)

theorem other_click_is_noop_witness:
  "handleClick (Some \<lparr>name = ascii ''revenue'', type = quantitative\<rparr>)
     \<lparr>name = ascii ''revenue'', type = quantitative\<rparr>
     \<lparr>isHovered = True, isDragging = False, lastPointerTypeRef = mouse\<rparr>
   = (\<lparr>isHovered = True, isDragging = False, lastPointerTypeRef = mouse\<rparr>, [])"
proof -
  have h: "lastPointerTypeRef \<lparr>isHovered = True, isDragging = False, lastPointerTypeRef = mouse\<rparr>
           \<in> {mouse, pen, unknown}"
    by simp
  show ?thesis
    using other_click_is_noop
            [OF h, of "Some \<lparr>name = ascii ''revenue'', type = quantitative\<rparr>"
                      "\<lparr>name = ascii ''revenue'', type = quantitative\<rparr>", THEN conjunct1]
    by simp
qed

text \<open>
  Claim C4. A pointer-down stores the reported pointer type in the ref when it is
  \<open>mouse\<close>, \<open>pen\<close> or \<open>touch\<close> and \<open>unknown\<close> for any other string; it changes
  nothing else and sends no request. A click returns the instance state it found, so the
  ref still holds the recorded kind after the click.
\<close>

theorem pointer_down_records_kind:
  "PointerKind_str (lastPointerTypeRef (handlePointerDown p st)) =
     (if p \<in> {''mouse'', ''pen'', ''touch''} then p else ''unknown'')
   \<and> handlePointerDown p st =
       st\<lparr>lastPointerTypeRef := lastPointerTypeRef (handlePointerDown p st)\<rparr>
   \<and> deliver selected field (pointerdown pillDiv p) st =
       Some \<lparr>pillState = handlePointerDown p st, requests = [], transfer = None\<rparr>
   \<and> fst (handleClick selected field st) = st
   \<and> map_option pillState (deliver selected field (click pillDiv) (handlePointerDown p st)) =
       Some (handlePointerDown p st)"
  by (auto simp: handlePointerDown_def handleClick_def deliver_def)

theorem pointer_down_records_kind_witness:
  "lastPointerTypeRef (handlePointerDown ''touch'' initialPillState) = touch
   \<and> lastPointerTypeRef (handlePointerDown ''eraser'' initialPillState) = unknown
   \<and> lastPointerTypeRef (fst (handleClick None \<lparr>name = ascii ''revenue'', type = quantitative\<rparr>
        (handlePointerDown ''touch'' initialPillState))) = touch"
  using pointer_down_records_kind
          [of "''touch''" initialPillState None "\<lparr>name = ascii ''revenue'', type = quantitative\<rparr>"]
        pointer_down_records_kind
          [of "''eraser''" initialPillState None "\<lparr>name = ascii ''revenue'', type = quantitative\<rparr>"]
        pointer_down_records_kind
          [of "''touch''" "handlePointerDown ''touch'' initialPillState" None
              "\<lparr>name = ascii ''revenue'', type = quantitative\<rparr>"]
  by (simp add: handlePointerDown_def initialPillState_def)

subsection \<open>Drag and drop\<close>

text \<open>
  Claim C3. Drag-start stores \<open>JSON.stringify(field)\<close> under \<open>application/json\<close> in the
  data transfer object, leaving its other formats, sets \<open>effectAllowed\<close> to \<open>copy\<close> and
  sets \<open>isDragging\<close>; it sends no request and changes nothing else. The text stored is
  a JSON text: read back, it is the object with the two members \<open>name\<close> and \<open>type\<close>,
  in this order and with the values of the field, the quoted name reading back as the
  name. The serialisation writes every member of an object, in order, so that any object
  is read back from its text; for a field descriptor the text is the two quoted keys and
  values between braces, and no other field descriptor is written as the same text. Drag-end clears \<open>isDragging\<close> in every state, sends no
  request and changes nothing else.
\<close>

theorem drag_start_publishes_field:
  \<open>deliver selected field (dragstart dt) st =
     Some \<lparr>pillState = st\<lparr>isDragging := True\<rparr>, requests = [],
           transfer = Some (dt\<lparr>items := (items dt)(''application/json'' \<mapsto>
                                          JSON_stringify (fieldObject field)),
                              effectAllowed := ''copy''\<rparr>)\<rparr>
   \<and> JSON_parse (JSON_stringify (fieldObject field)) =
       Some (JSObject [(ascii ''name'', JSString (name field)),
                       (ascii ''type'', JSString (ascii (FieldType_str (type field))))])
   \<and> JSON_parse (JSON_stringify (JSObject ms)) = Some (JSObject ms)
   \<and> read_string (tl (QuoteJSONString (name field))) = Some (name field, [])
   \<and> JSON_stringify (fieldObject field) =
       ascii ''{"name":'' @ QuoteJSONString (name field) @
       ascii '',"type":"'' @ ascii (FieldType_str (type field)) @ ascii ''"}''
   \<and> (JSON_stringify (fieldObject field) = JSON_stringify (fieldObject g)) = (field = g)
   \<and> deliver selected field dragend st =
       Some \<lparr>pillState = st\<lparr>isDragging := False\<rparr>, requests = [], transfer = None\<rparr>
   \<and> handleDragEnd st = st\<lparr>isDragging := False\<rparr>\<close>
proof -
  have parse: "JSON_parse (JSON_stringify (fieldObject field)) =
       Some (JSObject [(ascii ''name'', JSString (name field)),
                       (ascii ''type'', JSString (ascii (FieldType_str (type field))))])"
    using JSON_parse_stringify [of "fieldObject field"] by (simp only: fieldObject_def)
  have quoted: "read_string (tl (QuoteJSONString (name field))) = Some (name field, [])"
    using read_QuoteJSONUnits [of "name field" "[]"]
    by (simp add: QuoteJSONString_def ascii_def)
  have inj: "(JSON_stringify (fieldObject field) = JSON_stringify (fieldObject g)) = (field = g)"
    using JSON_stringify_inj fieldObject_inj by blast
  have drag: "deliver selected field (dragstart dt) st =
     Some \<lparr>pillState = st\<lparr>isDragging := True\<rparr>, requests = [],
           transfer = Some (dt\<lparr>items := (items dt)(''application/json'' \<mapsto>
                                          JSON_stringify (fieldObject field)),
                              effectAllowed := ''copy''\<rparr>)\<rparr>"
    by (simp add: deliver_def handleDragStart_def setData_def del: JSON_stringify.simps)
  have dragend: "deliver selected field dragend st =
       Some \<lparr>pillState = st\<lparr>isDragging := False\<rparr>, requests = [], transfer = None\<rparr>"
    by (simp add: deliver_def handleDragEnd_def)
  from drag parse JSON_parse_stringify [of "JSObject ms"] quoted fieldObject_text [of field]
    inj dragend
  show ?thesis
    by (simp only: handleDragEnd_def simp_thms)
qed

theorem drag_start_publishes_field_witness:
  \<open>map_option transfer
     (deliver None \<lparr>name = ascii ''revenue'', type = quantitative\<rparr>
        (dragstart \<lparr>items = Map.empty, effectAllowed = ''uninitialized''\<rparr>) initialPillState)
   = Some (Some \<lparr>items = [''application/json'' \<mapsto>
                            ascii ''{"name":"revenue","type":"quantitative"}''],
                  effectAllowed = ''copy''\<rparr>)
   \<and> JSON_parse (ascii ''{"name":"revenue","type":"quantitative"}'')
     = Some (JSObject [(ascii ''name'', JSString (ascii ''revenue'')),
                       (ascii ''type'', JSString (ascii ''quantitative''))])
   \<and> JSON_stringify (fieldObject \<lparr>name = [0x61, 0x22, 0x5C, 0x0A, 0x1F, 0xD83D, 0xDE00, 0xDC01],
                                  type = ordinal\<rparr>)
     = ascii ''{"name":"a'' @
       [0x5C, 0x22, 0x5C, 0x5C, 0x5C, 0x6E, 0x5C, 0x75, 0x30, 0x30, 0x31, 0x66,
        0xD83D, 0xDE00, 0x5C, 0x75, 0x64, 0x63, 0x30, 0x31] @
       ascii ''","type":"ordinal"}''
   \<and> handleDragEnd \<lparr>isHovered = False, isDragging = True, lastPointerTypeRef = unknown\<rparr>
     = initialPillState\<close>
proof -
  note revenue = drag_start_publishes_field
            [of None "\<lparr>name = ascii ''revenue'', type = quantitative\<rparr>"
                "\<lparr>items = Map.empty, effectAllowed = ''uninitialized''\<rparr>" initialPillState
                "[]" "\<lparr>name = ascii ''revenue'', type = quantitative\<rparr>"]
  note special = drag_start_publishes_field
            [of None "\<lparr>name = [0x61, 0x22, 0x5C, 0x0A, 0x1F, 0xD83D, 0xDE00, 0xDC01], type = ordinal\<rparr>"
                "\<lparr>items = Map.empty, effectAllowed = ''uninitialized''\<rparr>" initialPillState
                "[]" "\<lparr>name = ascii ''revenue'', type = quantitative\<rparr>"]
  note ended = drag_start_publishes_field
            [of None "\<lparr>name = ascii ''revenue'', type = quantitative\<rparr>"
                "\<lparr>items = Map.empty, effectAllowed = ''uninitialized''\<rparr>"
                "\<lparr>isHovered = False, isDragging = True, lastPointerTypeRef = unknown\<rparr>"
                "[]" "\<lparr>name = ascii ''revenue'', type = quantitative\<rparr>"]
  have q1: \<open>QuoteJSONString (ascii ''revenue'') = ascii ''"revenue"''\<close>
    by (simp add: QuoteJSONString_def QuoteJSONUnit_def isLeadingSurrogate_def
        isTrailingSurrogate_def ascii_def)
  have q2: "QuoteJSONString [0x61, 0x22, 0x5C, 0x0A, 0x1F, 0xD83D, 0xDE00, 0xDC01]
          = [0x22, 0x61, 0x5C, 0x22, 0x5C, 0x5C, 0x5C, 0x6E, 0x5C, 0x75, 0x30, 0x30, 0x31, 0x66,
             0xD83D, 0xDE00, 0x5C, 0x75, 0x64, 0x63, 0x30, 0x31, 0x22]"
    by (simp add: QuoteJSONString_def QuoteJSONUnit_def UnicodeEscape_def hexDigit_def
        isLeadingSurrogate_def isTrailingSurrogate_def ascii_def)
  have payload:
    \<open>JSON_stringify (fieldObject \<lparr>name = ascii ''revenue'', type = quantitative\<rparr>)
     = ascii ''{"name":"revenue","type":"quantitative"}''\<close>
    using revenue [THEN conjunct2, THEN conjunct2, THEN conjunct2, THEN conjunct2,
                   THEN conjunct1]
    by (simp add: q1 del: JSON_stringify.simps) (simp add: ascii_def)
  have c1: \<open>map_option transfer
     (deliver None \<lparr>name = ascii ''revenue'', type = quantitative\<rparr>
        (dragstart \<lparr>items = Map.empty, effectAllowed = ''uninitialized''\<rparr>) initialPillState)
   = Some (Some \<lparr>items = [''application/json'' \<mapsto>
                            ascii ''{"name":"revenue","type":"quantitative"}''],
                  effectAllowed = ''copy''\<rparr>)\<close>
    using revenue [THEN conjunct1] unfolding payload by simp
  have c2: \<open>JSON_parse (ascii ''{"name":"revenue","type":"quantitative"}'')
     = Some (JSObject [(ascii ''name'', JSString (ascii ''revenue'')),
                       (ascii ''type'', JSString (ascii ''quantitative''))])\<close>
    using revenue [THEN conjunct2, THEN conjunct1] unfolding payload by simp
  have c3: \<open>JSON_stringify (fieldObject \<lparr>name = [0x61, 0x22, 0x5C, 0x0A, 0x1F, 0xD83D, 0xDE00, 0xDC01],
                                  type = ordinal\<rparr>)
     = ascii ''{"name":"a'' @
       [0x5C, 0x22, 0x5C, 0x5C, 0x5C, 0x6E, 0x5C, 0x75, 0x30, 0x30, 0x31, 0x66,
        0xD83D, 0xDE00, 0x5C, 0x75, 0x64, 0x63, 0x30, 0x31] @
       ascii ''","type":"ordinal"}''\<close>
    using special [THEN conjunct2, THEN conjunct2, THEN conjunct2, THEN conjunct2,
                   THEN conjunct1]
    by (simp add: q2 del: JSON_stringify.simps) (simp add: ascii_def)
  have c4: "handleDragEnd \<lparr>isHovered = False, isDragging = True, lastPointerTypeRef = unknown\<rparr>
     = initialPillState"
    using ended [THEN conjunct2, THEN conjunct2, THEN conjunct2, THEN conjunct2,
                 THEN conjunct2, THEN conjunct2, THEN conjunct2]
    by (simp add: initialPillState_def)
  from c1 c2 c3 c4 show ?thesis by (intro conjI)
qed

text \<open>
  Claim C9. Drag-start does not read the ref, the hover flag, the dragging flag or the
  selection: from any two instance states and selections it fills the data transfer
  object in the same way, sends the same (empty) list of requests and leaves
  \<open>isDragging\<close> set, each state keeping its other components.
\<close>

theorem drag_start_ignores_pointer_kind:
  "\<exists>o1 o2. deliver selected1 field (dragstart dt) st1 = Some o1
         \<and> deliver selected2 field (dragstart dt) st2 = Some o2
         \<and> transfer o1 = transfer o2 \<and> requests o1 = requests o2
         \<and> isDragging (pillState o1) \<and> isDragging (pillState o2)
         \<and> pillState o1 = st1\<lparr>isDragging := True\<rparr>
         \<and> pillState o2 = st2\<lparr>isDragging := True\<rparr>
         \<and> fst (handleDragStart field dt st1) = fst (handleDragStart field dt st2)"
  by (simp add: deliver_def handleDragStart_def)

theorem drag_start_ignores_pointer_kind_witness:
  "fst (handleDragStart \<lparr>name = ascii ''revenue'', type = quantitative\<rparr>
          \<lparr>items = Map.empty, effectAllowed = ''uninitialized''\<rparr>
          \<lparr>isHovered = False, isDragging = False, lastPointerTypeRef = touch\<rparr>)
   = fst (handleDragStart \<lparr>name = ascii ''revenue'', type = quantitative\<rparr>
          \<lparr>items = Map.empty, effectAllowed = ''uninitialized''\<rparr>
          \<lparr>isHovered = True, isDragging = False, lastPointerTypeRef = mouse\<rparr>)"
  using drag_start_ignores_pointer_kind
          [of None "\<lparr>name = ascii ''revenue'', type = quantitative\<rparr>"
              "\<lparr>items = Map.empty, effectAllowed = ''uninitialized''\<rparr>"
              "\<lparr>isHovered = False, isDragging = False, lastPointerTypeRef = touch\<rparr>"
              "Some \<lparr>name = ascii ''revenue'', type = quantitative\<rparr>"
              "\<lparr>isHovered = True, isDragging = False, lastPointerTypeRef = mouse\<rparr>"]
  by blast

subsection \<open>The type toggle\<close>

text \<open>
  Claim C5. The toggle button is in the rendered tree exactly when the pill is hovered and
  the field's type is \<open>nominal\<close> or \<open>ordinal\<close>; for a \<open>quantitative\<close> or
  \<open>temporal\<close> field it is absent, hovered or not.
\<close>

theorem toggle_rendered_iff:
  "(renderToggleButton field st \<noteq> None) =
     (isHovered st \<and> (type field = nominal \<or> type field = ordinal))
   \<and> (type field = quantitative \<or> type field = temporal \<longrightarrow>
        renderToggleButton field st = None)"
  by (auto simp: renderToggleButton_def canToggle_def)

theorem toggle_rendered_iff_witness:
  "renderToggleButton \<lparr>name = ascii ''region'', type = nominal\<rparr>
     \<lparr>isHovered = True, isDragging = False, lastPointerTypeRef = mouse\<rparr> \<noteq> None
   \<and> renderToggleButton \<lparr>name = ascii ''region'', type = nominal\<rparr>
     \<lparr>isHovered = False, isDragging = False, lastPointerTypeRef = mouse\<rparr> = None
   \<and> renderToggleButton \<lparr>name = ascii ''revenue'', type = quantitative\<rparr>
     \<lparr>isHovered = True, isDragging = False, lastPointerTypeRef = mouse\<rparr> = None"
  using toggle_rendered_iff
          [of "\<lparr>name = ascii ''region'', type = nominal\<rparr>"
              "\<lparr>isHovered = True, isDragging = False, lastPointerTypeRef = mouse\<rparr>"]
        toggle_rendered_iff
          [of "\<lparr>name = ascii ''region'', type = nominal\<rparr>"
              "\<lparr>isHovered = False, isDragging = False, lastPointerTypeRef = mouse\<rparr>"]
        toggle_rendered_iff
          [of "\<lparr>name = ascii ''revenue'', type = quantitative\<rparr>"
              "\<lparr>isHovered = True, isDragging = False, lastPointerTypeRef = mouse\<rparr>"]
  by simp




subsection \<open>The lookup tables\<close>

text \<open>
  Claim C7. For each of the four field types both tables have an entry: the label is
  \<open>Q\<close>, \<open>N\<close>, \<open>O\<close>, \<open>T\<close> and the colour is the CSS variable of the type. Each
  table has the four type names as its keys, once each, and no other key.
\<close>

theorem type_tables_total:
  "label f = Some (case type f of quantitative \<Rightarrow> ''Q'' | nominal \<Rightarrow> ''N''
                               | ordinal \<Rightarrow> ''O'' | temporal \<Rightarrow> ''T'')
   \<and> color f = Some (''var(--color-'' @ FieldType_str (type f) @ '')'')
   \<and> distinct (map fst TYPE_LABELS) \<and> set (map fst TYPE_LABELS) = range FieldType_str
   \<and> distinct (map fst TYPE_COLORS) \<and> set (map fst TYPE_COLORS) = range FieldType_str"
  by (cases "type f")
     (auto simp: label_def color_def TYPE_LABELS_def TYPE_COLORS_def FieldType_UNIV)

theorem type_tables_total_witness:
  "label \<lparr>name = ascii ''revenue'', type = quantitative\<rparr> = Some ''Q''
   \<and> label \<lparr>name = ascii ''region'', type = nominal\<rparr> = Some ''N''
   \<and> label \<lparr>name = ascii ''rank'', type = ordinal\<rparr> = Some ''O''
   \<and> label \<lparr>name = ascii ''date'', type = temporal\<rparr> = Some ''T''
   \<and> color \<lparr>name = ascii ''date'', type = temporal\<rparr> = Some ''var(--color-temporal)''"
  using type_tables_total [of "\<lparr>name = ascii ''revenue'', type = quantitative\<rparr>"]
        type_tables_total [of "\<lparr>name = ascii ''region'', type = nominal\<rparr>"]
        type_tables_total [of "\<lparr>name = ascii ''rank'', type = ordinal\<rparr>"]
        type_tables_total [of "\<lparr>name = ascii ''date'', type = temporal\<rparr>"]
  by simp

subsection \<open>Selection\<close>

text \<open>
  Claim C10. With no selected field in the shared state the comparison is false, the pill
  takes the background and border of an unselected pill, and a click with the ref at
  \<open>touch\<close> sends \<open>selectField(field)\<close> and not \<open>clearSelectedField()\<close>.
\<close>

theorem no_selection_click_selects:
  "\<not> isSelected None field
   \<and> backgroundColor None field st =
       (if isHovered st then ''var(--color-bg-tertiary)'' else ''var(--color-bg-elevated)'')
   \<and> border None field st =
       ''1px solid '' @
       (if isHovered st then ''var(--color-border-hover)'' else ''var(--color-border)'')
   \<and> (lastPointerTypeRef st = touch \<longrightarrow>
        handleClick None field st = (st, [selectField field])
      \<and> deliver None field (click pillDiv) st =
          Some \<lparr>pillState = st, requests = [selectField field], transfer = None\<rparr>)"
  by (simp add: isSelected_def backgroundColor_def border_def handleClick_def deliver_def)

theorem no_selection_click_selects_witness:
  "lastPointerTypeRef (handlePointerDown ''touch'' initialPillState) = touch
   \<and> handleClick None \<lparr>name = ascii ''revenue'', type = quantitative\<rparr>
       (handlePointerDown ''touch'' initialPillState)
     = (handlePointerDown ''touch'' initialPillState,
        [selectField \<lparr>name = ascii ''revenue'', type = quantitative\<rparr>])
   \<and> backgroundColor None \<lparr>name = ascii ''revenue'', type = quantitative\<rparr> initialPillState
     = ''var(--color-bg-elevated)''"
proof -
  have h: "lastPointerTypeRef (handlePointerDown ''touch'' initialPillState) = touch"
    by (simp add: handlePointerDown_def)
  show ?thesis
    using h
      no_selection_click_selects
        [of "\<lparr>name = ascii ''revenue'', type = quantitative\<rparr>"
            "handlePointerDown ''touch'' initialPillState"]
      no_selection_click_selects
        [of "\<lparr>name = ascii ''revenue'', type = quantitative\<rparr>" initialPillState]
    by (simp add: initialPillState_def)
qed

text \<open>
  Claim C8, as stated: from any selection, two touch taps on the same pill restore the
  selection. In the container of the spec this fails when another field is selected: the
  first tap on \<open>a\<close> replaces the selected \<open>b\<close>, the second clears the selection, and
  \<open>b\<close> is not selected again.
\<close>

theorem two_taps_lose_other_selection:
  "map_option selection
     (tapTwice \<lparr>name = ascii ''a'', type = nominal\<rparr>
        (\<lparr>selectedField = Some \<lparr>name = ascii ''b'', type = nominal\<rparr>,
          detectedFields = [\<lparr>name = ascii ''a'', type = nominal\<rparr>, \<lparr>name = ascii ''b'', type = nominal\<rparr>]\<rparr>,
         initialPillState))
   \<noteq> Some (selection
        (\<lparr>selectedField = Some \<lparr>name = ascii ''b'', type = nominal\<rparr>,
          detectedFields = [\<lparr>name = ascii ''a'', type = nominal\<rparr>, \<lparr>name = ascii ''b'', type = nominal\<rparr>]\<rparr>,
         initialPillState))"
  by (simp add: tapTwice_def touchTap_def react_def deliver_def handlePointerDown_def
      handleClick_def isSelected_def selection_def initialPillState_def ascii_def)

text \<open>
  Claim C8, amended. Each touch tap on a pill flips whether its field is the selected one
  (by name), so after two taps the field is selected exactly if it was before. After the
  two taps the selection is this pill's field if the field was selected and empty if it
  was not; the shared state is the original one when the selection was empty or was this
  pill's field.
\<close>

theorem touch_tap_flips_field:
  "\<exists>w1 w2. touchTap field w = Some w1 \<and> touchTap field w1 = Some w2
     \<and> tapTwice field w = Some w2
     \<and> isSelected (selection w1) field = (\<not> isSelected (selection w) field)
     \<and> isSelected (selection w2) field = isSelected (selection w) field
     \<and> selection w2 = (if isSelected (selection w) field then Some field else None)
     \<and> (selection w = None \<or> selection w = Some field \<longrightarrow> fst w2 = fst w)"
  by (cases w) (auto simp: touchTap_eq tapTwice_def selection_def isSelected_def)

theorem touch_tap_flips_field_witness:
  "selection (\<lparr>selectedField = None, detectedFields = [\<lparr>name = ascii ''a'', type = nominal\<rparr>]\<rparr>,
              initialPillState) = None
   \<and> map_option fst
       (tapTwice \<lparr>name = ascii ''a'', type = nominal\<rparr>
          (\<lparr>selectedField = None, detectedFields = [\<lparr>name = ascii ''a'', type = nominal\<rparr>]\<rparr>,
           initialPillState))
     = Some \<lparr>selectedField = None, detectedFields = [\<lparr>name = ascii ''a'', type = nominal\<rparr>]\<rparr>
   \<and> map_option selection
       (touchTap \<lparr>name = ascii ''a'', type = nominal\<rparr>
          (\<lparr>selectedField = None, detectedFields = [\<lparr>name = ascii ''a'', type = nominal\<rparr>]\<rparr>,
           initialPillState))
     = Some (Some \<lparr>name = ascii ''a'', type = nominal\<rparr>)"
proof -
  have h: "selection (\<lparr>selectedField = None, detectedFields = [\<lparr>name = ascii ''a'', type = nominal\<rparr>]\<rparr>,
                      initialPillState) = None"
    by (simp add: selection_def)
  from touch_tap_flips_field
         [of "\<lparr>name = ascii ''a'', type = nominal\<rparr>"
             "(\<lparr>selectedField = None, detectedFields = [\<lparr>name = ascii ''a'', type = nominal\<rparr>]\<rparr>,
               initialPillState)"]
  obtain w1 w2 where
    t1: "touchTap \<lparr>name = ascii ''a'', type = nominal\<rparr>
           (\<lparr>selectedField = None, detectedFields = [\<lparr>name = ascii ''a'', type = nominal\<rparr>]\<rparr>,
            initialPillState) = Some w1"
    and t2: "tapTwice \<lparr>name = ascii ''a'', type = nominal\<rparr>
           (\<lparr>selectedField = None, detectedFields = [\<lparr>name = ascii ''a'', type = nominal\<rparr>]\<rparr>,
            initialPillState) = Some w2"
    and s1: "isSelected (selection w1) \<lparr>name = ascii ''a'', type = nominal\<rparr> =
             (\<not> isSelected (selection
                 (\<lparr>selectedField = None, detectedFields = [\<lparr>name = ascii ''a'', type = nominal\<rparr>]\<rparr>,
                  initialPillState)) \<lparr>name = ascii ''a'', type = nominal\<rparr>)"
    and r: "selection
              (\<lparr>selectedField = None, detectedFields = [\<lparr>name = ascii ''a'', type = nominal\<rparr>]\<rparr>,
               initialPillState) = None
            \<or> selection
              (\<lparr>selectedField = None, detectedFields = [\<lparr>name = ascii ''a'', type = nominal\<rparr>]\<rparr>,
               initialPillState) = Some \<lparr>name = ascii ''a'', type = nominal\<rparr>
            \<longrightarrow> fst w2 =
              fst (\<lparr>selectedField = None, detectedFields = [\<lparr>name = ascii ''a'', type = nominal\<rparr>]\<rparr>,
                   initialPillState)"
    by blast
  from r h have "fst w2 = \<lparr>selectedField = None, detectedFields = [\<lparr>name = ascii ''a'', type = nominal\<rparr>]\<rparr>"
    by simp
  moreover have "selection w1 = Some \<lparr>name = ascii ''a'', type = nominal\<rparr>"
    using t1 by (auto simp: touchTap_eq selection_def isSelected_def)
  ultimately show ?thesis using h t1 t2 by simp
qed

end

